theory Spec2Isabelle
  imports Main
begin

section \<open>Barcode API endpoints of InvenTree (plugin/base/barcodes/api.py)\<close>

text \<open>
  The four views of \<^verbatim>\<open>api.py\<close> (\<^verbatim>\<open>BarcodeScan\<close>, \<^verbatim>\<open>BarcodeAssign\<close>,
  \<^verbatim>\<open>BarcodeUnassign\<close>, \<^verbatim>\<open>BarcodePOReceive\<close>) are embedded as functions from an
  environment (the collaborators the file imports) and a request to the outcome of
  \<^verbatim>\<open>post\<close> together with the list of collaborator calls the run made, in order.
  A returned \<^verbatim>\<open>Response(d)\<close> is \<open>Inr d\<close>, a raised exception is \<open>Inl e\<close>.
\<close>

subsection \<open>Python values and dictionaries\<close>

text \<open>
  The JSON-like values that occur in \<^verbatim>\<open>request.data\<close> and in the dictionaries the
  barcode plugins return. A dictionary keeps its keys in insertion order, as Python's
  does, so it is an association list.
\<close>

datatype pyval =
    PNone
  | PBool bool
  | PInt int
  | PStr string
  | PList "pyval list"
  | PDict "(string \<times> pyval) list"

type_synonym dict = "(string \<times> pyval) list"

text \<open>Python truthiness (\<^verbatim>\<open>if not x\<close>, \<^verbatim>\<open>if x := ...\<close>).\<close>

fun truthy :: "pyval \<Rightarrow> bool" where
  "truthy PNone = False"
| "truthy (PBool b) = b"
| "truthy (PInt i) = (i \<noteq> 0)"
| "truthy (PStr s) = (s \<noteq> [])"
| "truthy (PList xs) = (xs \<noteq> [])"
| "truthy (PDict d) = (d \<noteq> [])"

text \<open>\<^verbatim>\<open>key in d\<close>\<close>

definition has_key :: "dict \<Rightarrow> string \<Rightarrow> bool" where
  "has_key d k = (k \<in> set (map fst d))"

text \<open>\<^verbatim>\<open>d.get(key, None)\<close>, and \<^verbatim>\<open>d[key]\<close> where the key is known to be present.\<close>

definition dict_get :: "dict \<Rightarrow> string \<Rightarrow> pyval" where
  "dict_get d k = (case map_of d k of None \<Rightarrow> PNone | Some v \<Rightarrow> v)"

text \<open>
  \<^verbatim>\<open>d[key] = v\<close>: an existing key keeps its position and gets the new value, a new
  key is appended.
\<close>

fun dict_set :: "string \<Rightarrow> pyval \<Rightarrow> dict \<Rightarrow> dict" where
  "dict_set k v [] = [(k, v)]"
| "dict_set k v ((k', v') # d) =
     (if k' = k then (k, v) # d else (k', v') # dict_set k v d)"

text \<open>\<^verbatim>\<open>sep.join(xs)\<close>\<close>

fun join :: "string \<Rightarrow> string list \<Rightarrow> string" where
  "join sep [] = []"
| "join sep [x] = x"
| "join sep (x # y # ys) = x @ sep @ join sep (y # ys)"

text \<open>
  \<^verbatim>\<open>str(xs)\<close> of a list of strings, as the f-string of \<^verbatim>\<open>BarcodeAssign\<close> formats
  \<^verbatim>\<open>valid_labels\<close>. Each element is shown in single quotes; this is Python's
  \<^verbatim>\<open>repr\<close> for the model labels, which are identifiers (no quote, backslash or
  control character to escape).
\<close>

definition str_list :: "string list \<Rightarrow> string" where
  "str_list xs = ''['' @ join '', '' (map (\<lambda>s. [CHR 0x27] @ s @ [CHR 0x27]) xs) @ '']''"

subsection \<open>Collaborators\<close>

type_synonym user = string

text \<open>A database row; only its primary key is read by the views.\<close>

datatype entity = Entity (pk: pyval)

text \<open>
  A model instance defines neither \<^verbatim>\<open>__bool__\<close> nor \<^verbatim>\<open>__len__\<close>, so
  \<^verbatim>\<open>if not instance\<close> never holds for an instance.
\<close>

definition entity_truthy :: "entity \<Rightarrow> bool" where
  "entity_truthy e = True"

text \<open>
  What a primary-key query finds: a row, no row, or a key the field cannot convert
  (Django raises \<^verbatim>\<open>ValueError\<close> for it).
\<close>

datatype lookup = Found entity | NoRow | BadKey

text \<open>
  A Django model class: its barcode label (\<^verbatim>\<open>barcode_model_type()\<close>), the two parts of
  its table name (\<^verbatim>\<open>_meta.app_label\<close>, \<^verbatim>\<open>_meta.model_name\<close>) and its table, as the
  primary-key query on it.
\<close>

record model =
  barcode_model_type :: string
  app_label :: string
  model_name :: string
  objects :: "pyval \<Rightarrow> lookup"

text \<open>The exceptions that leave a view.\<close>

datatype exn =
    ValidationError dict
  | PermissionDenied dict
  | DoesNotExist
  | ValueError
  | StopIteration

text \<open>
  \<^verbatim>\<open>Model.objects.get(pk=key)\<close> returns the row or raises \<^verbatim>\<open>Model.DoesNotExist\<close>
  (no row) or \<^verbatim>\<open>ValueError\<close> (malformed key); it never returns \<^verbatim>\<open>None\<close>.
\<close>

definition objects_get :: "model \<Rightarrow> pyval \<Rightarrow> exn + entity" where
  "objects_get m key =
     (case objects m key of
        Found e \<Rightarrow> Inr e
      | NoRow \<Rightarrow> Inl DoesNotExist
      | BadKey \<Rightarrow> Inl ValueError)"

text \<open>
  \<^verbatim>\<open>Model.objects.filter(pk=key).first()\<close> returns the row or \<^verbatim>\<open>None\<close>; a malformed
  key raises \<^verbatim>\<open>ValueError\<close>.
\<close>

definition objects_filter_first :: "model \<Rightarrow> pyval \<Rightarrow> exn + entity option" where
  "objects_filter_first m key =
     (case objects m key of
        Found e \<Rightarrow> Inr (Some e)
      | NoRow \<Rightarrow> Inr None
      | BadKey \<Rightarrow> Inl ValueError)"

text \<open>
  A barcode plugin: its \<^verbatim>\<open>name\<close>, its \<^verbatim>\<open>scan(barcode_data)\<close> and its
  \<^verbatim>\<open>scan_receive_item(barcode_data, user, purchase_order=, location=)\<close>. Both methods
  return a dictionary or \<^verbatim>\<open>None\<close>.
\<close>

record plugin =
  name :: string
  scan :: "pyval \<Rightarrow> dict option"
  scan_receive_item ::
    "pyval \<Rightarrow> user \<Rightarrow> entity option \<Rightarrow> entity option \<Rightarrow> dict option"

text \<open>
  What \<^verbatim>\<open>api.py\<close> imports: \<^verbatim>\<open>registry.with_mixin(mixin, builtin=)\<close>,
  \<^verbatim>\<open>hash_barcode\<close>, \<^verbatim>\<open>InvenTreeInternalBarcodePlugin.get_supported_barcode_models()\<close>,
  \<^verbatim>\<open>RuleSet.check_table_permission(user, table, permission)\<close> and the models
  \<^verbatim>\<open>PurchaseOrder\<close> and \<^verbatim>\<open>StockLocation\<close>. They are parameters of the embedding.
\<close>

record env =
  with_mixin :: "string \<Rightarrow> bool option \<Rightarrow> plugin list"
  hash_barcode :: "pyval \<Rightarrow> string"
  get_supported_barcode_models :: "model list"
  check_table_permission :: "user \<Rightarrow> string \<Rightarrow> string \<Rightarrow> bool"
  PurchaseOrder :: model
  StockLocation :: model

record request =
  data :: dict
  user :: user

text \<open>
  The calls a view makes to its collaborators, recorded in order: a plugin's
  \<^verbatim>\<open>scan\<close> and \<^verbatim>\<open>scan_receive_item\<close>, a primary-key query on a model, a permission
  check, and the two mutations \<^verbatim>\<open>assign_barcode\<close> and \<^verbatim>\<open>unassign_barcode\<close>.
\<close>

datatype event =
    EvScan plugin pyval
  | EvScanReceive plugin pyval user "entity option" "entity option"
  | EvQuery model pyval
  | EvCheckPermission user string string
  | EvAssignBarcode entity pyval string
  | EvUnassignBarcode entity

subsection \<open>BarcodeScan.post\<close>

text \<open>
  The loop over the plugins (lines 70 to 86), with the loop variables \<^verbatim>\<open>plugin\<close> and
  \<^verbatim>\<open>response\<close> as accumulators. \<^verbatim>\<open>if not response\<close> holds for the empty dictionary.
\<close>

fun scan_loop ::
  "plugin list \<Rightarrow> pyval \<Rightarrow> plugin option \<Rightarrow> dict \<Rightarrow> event list
     \<Rightarrow> plugin option \<times> dict \<times> event list" where
  "scan_loop [] barcode_data plugin response tr = (plugin, response, tr)"
| "scan_loop (current_plugin # rest) barcode_data plugin response tr =
     (case scan current_plugin barcode_data of
        None \<Rightarrow>
          scan_loop rest barcode_data plugin response (tr @ [EvScan current_plugin barcode_data])
      | Some result \<Rightarrow>
          if has_key result ''error'' then
            (if response = [] then
               scan_loop rest barcode_data (Some current_plugin) result
                 (tr @ [EvScan current_plugin barcode_data])
             else
               scan_loop rest barcode_data plugin response
                 (tr @ [EvScan current_plugin barcode_data]))
          else (Some current_plugin, result, tr @ [EvScan current_plugin barcode_data]))"

text \<open>\<^verbatim>\<open>plugin.name if plugin else None\<close>\<close>

definition plugin_name :: "plugin option \<Rightarrow> pyval" where
  "plugin_name plugin = (case plugin of None \<Rightarrow> PNone | Some p \<Rightarrow> PStr (name p))"

definition BarcodeScan_post :: "env \<Rightarrow> request \<Rightarrow> (exn + dict) \<times> event list" where
  "BarcodeScan_post e req =
     (let barcode_data = dict_get (data req) ''barcode'' in
      if \<not> truthy barcode_data then
        (Inl (ValidationError [(''barcode'', PStr ''Missing barcode data'')]), [])
      else
        let plugins = with_mixin e ''barcode'' None;
            barcode_hash = hash_barcode e barcode_data;
            (plugin, response, tr) = scan_loop plugins barcode_data None [] [];
            response = dict_set ''plugin'' (plugin_name plugin) response;
            response = dict_set ''barcode_data'' barcode_data response;
            response = dict_set ''barcode_hash'' (PStr barcode_hash) response
        in if plugin = None then
             (Inl (ValidationError
                (dict_set ''error'' (PStr ''No match found for barcode data'') response)), tr)
           else
             (Inr (dict_set ''success'' (PStr ''Match found for barcode data'') response), tr))"

subsection \<open>BarcodeAssign.post\<close>

text \<open>
  The first loop (lines 129 to 137), over the builtin plugins: the first plugin whose
  \<^verbatim>\<open>scan\<close> does not return \<^verbatim>\<open>None\<close> ends the request with a
  \<^verbatim>\<open>ValidationError\<close>. \<open>None\<close> means the loop ran to its end.
\<close>

fun assign_scan :: "plugin list \<Rightarrow> pyval \<Rightarrow> event list \<Rightarrow> exn option \<times> event list" where
  "assign_scan [] barcode_data tr = (None, tr)"
| "assign_scan (plugin # rest) barcode_data tr =
     (case scan plugin barcode_data of
        None \<Rightarrow> assign_scan rest barcode_data (tr @ [EvScan plugin barcode_data])
      | Some result \<Rightarrow>
          (Some (ValidationError
             (dict_set ''barcode_data'' barcode_data
               (dict_set ''plugin'' (PStr (name plugin))
                 (dict_set ''error'' (PStr ''Barcode matches existing item'') result)))),
           tr @ [EvScan plugin barcode_data]))"

text \<open>\<^verbatim>\<open>f"{app_label}_{model_name}"\<close>\<close>

definition table_name :: "model \<Rightarrow> string" where
  "table_name m = app_label m @ ''_'' @ model_name m"

text \<open>
  The second loop (lines 143 to 184), over the supported models, with \<^verbatim>\<open>valid_labels\<close>
  as accumulator. The \<^verbatim>\<open>except\<close> clause catches \<^verbatim>\<open>ValueError\<close> and
  \<^verbatim>\<open>model.DoesNotExist\<close> only.
\<close>

fun assign_models ::
  "env \<Rightarrow> request \<Rightarrow> pyval \<Rightarrow> string \<Rightarrow> model list \<Rightarrow> string list \<Rightarrow> event list
     \<Rightarrow> (exn + dict) \<times> event list" where
  "assign_models e req barcode_data barcode_hash [] valid_labels tr =
     (Inl (ValidationError
        [(''error'', PStr (''Missing data: provide one of '' @ [CHR 0x27]
                            @ str_list valid_labels @ [CHR 0x27]))]), tr)"
| "assign_models e req barcode_data barcode_hash (m # rest) valid_labels tr =
     (let label = barcode_model_type m in
      if has_key (data req) label then
        (case objects_get m (dict_get (data req) label) of
           Inl x \<Rightarrow>
             if x = ValueError \<or> x = DoesNotExist then
               (Inl (ValidationError
                  [(''error'', PStr (''No matching '' @ label @ '' instance found in database''))]),
                tr @ [EvQuery m (dict_get (data req) label)])
             else (Inl x, tr @ [EvQuery m (dict_get (data req) label)])
         | Inr inst \<Rightarrow>
             if \<not> check_table_permission e (user req) (table_name m) ''change'' then
               (Inl (PermissionDenied
                  [(''error'', PStr (''You do not have the required permissions for ''
                                      @ table_name m))]),
                tr @ [EvQuery m (dict_get (data req) label),
                      EvCheckPermission (user req) (table_name m) ''change''])
             else
               (Inr (dict_set ''barcode_hash'' (PStr barcode_hash)
                      (dict_set ''barcode_data'' barcode_data
                        (dict_set label (PDict [(''pk'', pk inst)])
                          [(''success'', PStr (''Assigned barcode to '' @ label @ '' instance''))]))),
                tr @ [EvQuery m (dict_get (data req) label),
                      EvCheckPermission (user req) (table_name m) ''change'',
                      EvAssignBarcode inst barcode_data barcode_hash]))
      else assign_models e req barcode_data barcode_hash rest (valid_labels @ [label]) tr)"

definition BarcodeAssign_post :: "env \<Rightarrow> request \<Rightarrow> (exn + dict) \<times> event list" where
  "BarcodeAssign_post e req =
     (let barcode_data = dict_get (data req) ''barcode'' in
      if \<not> truthy barcode_data then
        (Inl (ValidationError [(''barcode'', PStr ''Missing barcode data'')]), [])
      else
        let plugins = with_mixin e ''barcode'' (Some True) in
        case assign_scan plugins barcode_data [] of
          (Some x, tr) \<Rightarrow> (Inl x, tr)
        | (None, tr) \<Rightarrow>
            assign_models e req barcode_data (hash_barcode e barcode_data)
              (get_supported_barcode_models e) [] tr)"

subsection \<open>BarcodeUnassign.post\<close>

text \<open>The loop of lines 221 to 253; its first equation is the code after the loop.\<close>

fun unassign_models ::
  "env \<Rightarrow> request \<Rightarrow> model list \<Rightarrow> event list \<Rightarrow> (exn + dict) \<times> event list" where
  "unassign_models e req [] tr =
     (Inl (ValidationError [(''error'', PStr ''Could not unassign barcode'')]), tr)"
| "unassign_models e req (m # rest) tr =
     (let label = barcode_model_type m in
      if has_key (data req) label then
        (case objects_get m (dict_get (data req) label) of
           Inl x \<Rightarrow>
             if x = ValueError \<or> x = DoesNotExist then
               (Inl (ValidationError [(label, PStr ''No match found for provided value'')]),
                tr @ [EvQuery m (dict_get (data req) label)])
             else (Inl x, tr @ [EvQuery m (dict_get (data req) label)])
         | Inr inst \<Rightarrow>
             if \<not> check_table_permission e (user req) (table_name m) ''change'' then
               (Inl (PermissionDenied
                  [(''error'', PStr (''You do not have the required permissions for ''
                                      @ table_name m))]),
                tr @ [EvQuery m (dict_get (data req) label),
                      EvCheckPermission (user req) (table_name m) ''change''])
             else
               (Inr [(''success'', PStr (''Barcode unassigned from '' @ label @ '' instance''))],
                tr @ [EvQuery m (dict_get (data req) label),
                      EvCheckPermission (user req) (table_name m) ''change'',
                      EvUnassignBarcode inst]))
      else unassign_models e req rest tr)"

definition BarcodeUnassign_post :: "env \<Rightarrow> request \<Rightarrow> (exn + dict) \<times> event list" where
  "BarcodeUnassign_post e req =
     (let supported_models = get_supported_barcode_models e;
          supported_labels = map barcode_model_type supported_models;
          model_names = join '', '' supported_labels;
          matched_labels = filter (has_key (data req)) supported_labels
      in if length matched_labels = 0 then
           (Inl (ValidationError
              [(''error'', PStr (''Missing data: Provide one of '' @ [CHR 0x27]
                                  @ model_names @ [CHR 0x27]))]), [])
         else if length matched_labels > 1 then
           (Inl (ValidationError
              [(''error'', PStr (''Multiple conflicting fields: '' @ [CHR 0x27]
                                  @ model_names @ [CHR 0x27]))]), [])
         else unassign_models e req supported_models [])"

subsection \<open>BarcodePOReceive.post\<close>

text \<open>
  Lines 286 to 291: \<^verbatim>\<open>filter(pk=...).first()\<close> gives \<^verbatim>\<open>None\<close> for a missing purchase
  order, and \<^verbatim>\<open>if not purchase_order\<close> turns it into a \<^verbatim>\<open>ValidationError\<close>.
\<close>

definition receive_purchase_order :: "env \<Rightarrow> dict \<Rightarrow> (exn + entity option) \<times> event list" where
  "receive_purchase_order e d =
     (let purchase_order_pk = dict_get d ''purchase_order'' in
      if truthy purchase_order_pk then
        (case objects_filter_first (PurchaseOrder e) purchase_order_pk of
           Inl x \<Rightarrow> (Inl x, [EvQuery (PurchaseOrder e) purchase_order_pk])
         | Inr None \<Rightarrow>
             (Inl (ValidationError [(''purchase_order'', PStr ''Invalid purchase order'')]),
              [EvQuery (PurchaseOrder e) purchase_order_pk])
         | Inr (Some purchase_order) \<Rightarrow>
             if \<not> entity_truthy purchase_order then
               (Inl (ValidationError [(''purchase_order'', PStr ''Invalid purchase order'')]),
                [EvQuery (PurchaseOrder e) purchase_order_pk])
             else (Inr (Some purchase_order), [EvQuery (PurchaseOrder e) purchase_order_pk]))
      else (Inr None, []))"

text \<open>
  Lines 293 to 297: \<^verbatim>\<open>StockLocation.objects.get(pk=location_pk)\<close>, whose exceptions are
  not caught, followed by \<^verbatim>\<open>if not location\<close>.
\<close>

definition receive_location :: "env \<Rightarrow> dict \<Rightarrow> (exn + entity option) \<times> event list" where
  "receive_location e d =
     (let location_pk = dict_get d ''location'' in
      if truthy location_pk then
        (case objects_get (StockLocation e) location_pk of
           Inl x \<Rightarrow> (Inl x, [EvQuery (StockLocation e) location_pk])
         | Inr location \<Rightarrow>
             if \<not> entity_truthy location then
               (Inl (ValidationError [(''location'', PStr ''Invalid stock location'')]),
                [EvQuery (StockLocation e) location_pk])
             else (Inr (Some location), [EvQuery (StockLocation e) location_pk]))
      else (Inr None, []))"

text \<open>
  \<^verbatim>\<open>if internal_barcode_plugin.scan(barcode_data)\<close>: \<^verbatim>\<open>None\<close> and the empty dictionary
  are false.
\<close>

definition scan_truthy :: "dict option \<Rightarrow> bool" where
  "scan_truthy r = (case r of None \<Rightarrow> False | Some d \<Rightarrow> d \<noteq> [])"

text \<open>The loop over the supplier plugins (lines 314 to 335).\<close>

fun receive_loop ::
  "plugin list \<Rightarrow> pyval \<Rightarrow> user \<Rightarrow> entity option \<Rightarrow> entity option \<Rightarrow> plugin option \<Rightarrow> dict
     \<Rightarrow> event list \<Rightarrow> plugin option \<times> dict \<times> event list" where
  "receive_loop [] barcode_data u purchase_order location plugin response tr =
     (plugin, response, tr)"
| "receive_loop (current_plugin # rest) barcode_data u purchase_order location plugin response tr =
     (case scan_receive_item current_plugin barcode_data u purchase_order location of
        None \<Rightarrow>
          receive_loop rest barcode_data u purchase_order location plugin response
            (tr @ [EvScanReceive current_plugin barcode_data u purchase_order location])
      | Some result \<Rightarrow>
          if has_key result ''error'' then
            (if response = [] then
               receive_loop rest barcode_data u purchase_order location
                 (Some current_plugin) result
                 (tr @ [EvScanReceive current_plugin barcode_data u purchase_order location])
             else
               receive_loop rest barcode_data u purchase_order location plugin response
                 (tr @ [EvScanReceive current_plugin barcode_data u purchase_order location]))
          else
            (Some current_plugin, result,
             tr @ [EvScanReceive current_plugin barcode_data u purchase_order location]))"

text \<open>
  \<^verbatim>\<open>next(filter(lambda plugin: plugin.name == "InvenTreeBarcode", plugins))\<close> is the first
  plugin of that name, and raises \<^verbatim>\<open>StopIteration\<close> when there is none.
\<close>

definition BarcodePOReceive_post :: "env \<Rightarrow> request \<Rightarrow> (exn + dict) \<times> event list" where
  "BarcodePOReceive_post e req =
     (let barcode_data = dict_get (data req) ''barcode'' in
      if \<not> truthy barcode_data then
        (Inl (ValidationError [(''barcode'', PStr ''Missing barcode data'')]), [])
      else
        case receive_purchase_order e (data req) of
          (Inl x, tr1) \<Rightarrow> (Inl x, tr1)
        | (Inr purchase_order, tr1) \<Rightarrow>
        (case receive_location e (data req) of
          (Inl x, tr2) \<Rightarrow> (Inl x, tr1 @ tr2)
        | (Inr location, tr2) \<Rightarrow>
        (case find (\<lambda>plugin. name plugin = ''InvenTreeBarcode'') (with_mixin e ''barcode'' None) of
          None \<Rightarrow> (Inl StopIteration, tr1 @ tr2)
        | Some internal_barcode_plugin \<Rightarrow>
            if scan_truthy (scan internal_barcode_plugin barcode_data) then
              (Inl (ValidationError [(''error'', PStr ''Item has already been received'')]),
               tr1 @ tr2 @ [EvScan internal_barcode_plugin barcode_data])
            else
              let plugins = with_mixin e ''supplier-barcode'' None;
                  (plugin, response, tr) =
                     receive_loop plugins barcode_data (user req) purchase_order location None []
                       (tr1 @ tr2 @ [EvScan internal_barcode_plugin barcode_data]);
                  response = dict_set ''plugin'' (plugin_name plugin) response;
                  response = dict_set ''barcode_data'' barcode_data response;
                  response = dict_set ''barcode_hash'' (PStr (hash_barcode e barcode_data)) response
              in if plugin = None then
                   (Inl (ValidationError
                      (dict_set ''error'' (PStr ''No match for supplier barcode'') response)), tr)
                 else if has_key response ''error'' then (Inl (ValidationError response), tr)
                 else (Inr response, tr))))"

subsection \<open>Vocabulary of the properties\<close>

text \<open>
  What a plugin's answer is to the scan loop: a successful match is a dictionary
  without the key \<^verbatim>\<open>error\<close>, an error outcome is a dictionary with it.
\<close>

definition is_match :: "dict option \<Rightarrow> bool" where
  "is_match r = (case r of None \<Rightarrow> False | Some d \<Rightarrow> \<not> has_key d ''error'')"


text \<open>The calls of a run that are \<^verbatim>\<open>scan_receive_item\<close> calls, or mutations.\<close>

fun is_scan_receive :: "event \<Rightarrow> bool" where
  "is_scan_receive (EvScanReceive p b u po loc) = True"
| "is_scan_receive _ = False"

fun is_mutation :: "event \<Rightarrow> bool" where
  "is_mutation (EvAssignBarcode i b h) = True"
| "is_mutation (EvUnassignBarcode i) = True"
| "is_mutation _ = False"

subsection \<open>A small installation, for the concrete runs\<close>

text \<open>
  Four plugins: the internal one, which knows the payload \<^verbatim>\<open>STOCK7\<close>; one that answers
  every payload with an error outcome; a supplier plugin, which knows \<^verbatim>\<open>DK1\<close>; and one
  that matches every payload.
\<close>

definition internal_plugin :: plugin where
  "internal_plugin =
     \<lparr>name = ''InvenTreeBarcode'',
      scan = (\<lambda>b. if b = PStr ''STOCK7''
                   then Some [(''stockitem'', PDict [(''pk'', PInt 7)])] else None),
      scan_receive_item = (\<lambda>b u po loc. None)\<rparr>"

definition faulty_plugin :: plugin where
  "faulty_plugin =
     \<lparr>name = ''Faulty'',
      scan = (\<lambda>b. Some [(''error'', PStr ''Malformed barcode'')]),
      scan_receive_item = (\<lambda>b u po loc. Some [(''error'', PStr ''Malformed barcode'')])\<rparr>"

definition supplier_plugin :: plugin where
  "supplier_plugin =
     \<lparr>name = ''Supplier'',
      scan = (\<lambda>b. if b = PStr ''DK1''
                   then Some [(''supplierpart'', PDict [(''pk'', PInt 3)])] else None),
      scan_receive_item = (\<lambda>b u po loc. if b = PStr ''DK1''
                   then Some [(''lineitem'', PDict [(''pk'', PInt 11)])] else None)\<rparr>"

definition catch_all_plugin :: plugin where
  "catch_all_plugin =
     \<lparr>name = ''CatchAll'',
      scan = (\<lambda>b. Some [(''raw'', b)]),
      scan_receive_item = (\<lambda>b u po loc. Some [(''raw'', b)])\<rparr>"

text \<open>A table with one row, whose keys are integers.\<close>

definition one_row :: "int \<Rightarrow> pyval \<Rightarrow> lookup" where
  "one_row n key =
     (case key of PInt i \<Rightarrow> if i = n then Found (Entity (PInt n)) else NoRow | _ \<Rightarrow> BadKey)"

definition part_model :: model where
  "part_model =
     \<lparr>barcode_model_type = ''part'', app_label = ''part'', model_name = ''part'',
      objects = one_row 1\<rparr>"

definition stockitem_model :: model where
  "stockitem_model =
     \<lparr>barcode_model_type = ''stockitem'', app_label = ''stock'', model_name = ''stockitem'',
      objects = one_row 42\<rparr>"

definition purchase_order_model :: model where
  "purchase_order_model =
     \<lparr>barcode_model_type = ''purchaseorder'', app_label = ''order'',
      model_name = ''purchaseorder'', objects = one_row 5\<rparr>"

definition stock_location_model :: model where
  "stock_location_model =
     \<lparr>barcode_model_type = ''stocklocation'', app_label = ''stock'',
      model_name = ''stocklocation'', objects = one_row 2\<rparr>"

text \<open>
  The installation with a given chain of barcode plugins: its builtin plugins are those
  named \<^verbatim>\<open>InvenTreeBarcode\<close>, its only supplier plugin is \<open>supplier_plugin\<close>, and the
  user \<^verbatim>\<open>admin\<close> alone may change tables.
\<close>

definition site :: "plugin list \<Rightarrow> env" where
  "site chain =
     \<lparr>with_mixin = (\<lambda>mixin builtin.
        if mixin = ''barcode'' then
          (if builtin = Some True then filter (\<lambda>p. name p = ''InvenTreeBarcode'') chain
           else chain)
        else if mixin = ''supplier-barcode'' then [supplier_plugin]
        else []),
      hash_barcode = (\<lambda>b. case b of PStr s \<Rightarrow> ''md5:'' @ s | _ \<Rightarrow> ''md5''),
      get_supported_barcode_models = [part_model, stockitem_model],
      check_table_permission = (\<lambda>u table perm. u = ''admin''),
      PurchaseOrder = purchase_order_model,
      StockLocation = stock_location_model\<rparr>"

section \<open>Auxiliary lemmas\<close>

subsection \<open>Dictionaries\<close>


lemma map_of_dict_set: "map_of (dict_set k v d) = (map_of d)(k \<mapsto> v)"
  by (induction k v d rule: dict_set.induct) (auto simp: fun_eq_iff)

lemma dict_get_dict_set: "dict_get (dict_set k v d) k' = (if k' = k then v else dict_get d k')"
  by (simp add: dict_get_def map_of_dict_set)

subsection \<open>The first element of a list with a property\<close>

lemma first_satisfying:
  assumes "\<exists>x\<in>set xs. P x"
  shows "\<exists>k<length xs. P (xs ! k) \<and> (\<forall>i<k. \<not> P (xs ! i))"
proof -
  from assms obtain j where j: "j < length xs" "P (xs ! j)"
    by (auto simp: in_set_conv_nth)
  define k where "k = (LEAST n. n < length xs \<and> P (xs ! n))"
  from j have 1: "k < length xs \<and> P (xs ! k)"
    unfolding k_def by (intro LeastI[of "\<lambda>n. n < length xs \<and> P (xs ! n)" j]) simp
  have 2: "\<forall>i<k. \<not> P (xs ! i)"
  proof (intro allI impI notI)
    fix i assume "i < k" "P (xs ! i)"
    with 1 have "i < length xs \<and> P (xs ! i)" by simp
    then have "k \<le> i" unfolding k_def by (rule Least_le)
    with \<open>i < k\<close> show False by simp
  qed
  from 1 2 show ?thesis by blast
qed

subsection \<open>The scan loop\<close>

lemma scan_loop_first_match:
  assumes "k < length ps" and "scan (ps ! k) b = Some r" and "\<not> has_key r ''error''"
    and "\<forall>i<k. \<not> is_match (scan (ps ! i) b)"
  shows "scan_loop ps b pl resp tr = (Some (ps ! k), r, tr @ map (\<lambda>p. EvScan p b) (take (Suc k) ps))"
  using assms
proof (induction ps arbitrary: k pl resp tr)
  case Nil
  then show ?case by simp
next
  case (Cons p ps)
  show ?case
  proof (cases k)
    case 0
    with Cons.prems show ?thesis by simp
  next
    case (Suc k')
    from Cons.prems Suc have nm: "\<not> is_match (scan p b)" by auto
    have k': "k' < length ps" "scan (ps ! k') b = Some r"
      using Cons.prems Suc by auto
    have prev: "\<forall>i<k'. \<not> is_match (scan (ps ! i) b)"
    proof (intro allI impI)
      fix i assume "i < k'"
      then have "Suc i < k" using Suc by simp
      with Cons.prems(4) have "\<not> is_match (scan ((p # ps) ! Suc i) b)" by blast
      then show "\<not> is_match (scan (ps ! i) b)" by simp
    qed
    note IH = Cons.IH[OF k'(1) k'(2) Cons.prems(3) prev]
    show ?thesis
    proof (cases "scan p b")
      case None
      then show ?thesis using IH Suc by simp
    next
      case (Some d)
      with nm have "has_key d ''error''" by (simp add: is_match_def)
      with Some show ?thesis using IH Suc by simp
    qed
  qed
qed



lemma first_match_exists:
  assumes "\<exists>p\<in>set ps. is_match (scan p b)"
  shows "\<exists>k<length ps. is_match (scan (ps ! k) b) \<and> (\<forall>i<k. \<not> is_match (scan (ps ! i) b))"
  using first_satisfying[of ps "\<lambda>p. is_match (scan p b)"] assms by simp

lemma BarcodeScan_post_first_match:
  fixes e :: env and req :: request
  defines "b \<equiv> dict_get (data req) ''barcode''"
    and "plugins \<equiv> with_mixin e ''barcode'' None"
  assumes "truthy b"
    and "k < length plugins" and "scan (plugins ! k) b = Some result"
    and "\<not> has_key result ''error''"
    and "\<forall>i<k. \<not> is_match (scan (plugins ! i) b)"
  shows "BarcodeScan_post e req =
               (Inr (dict_set ''success'' (PStr ''Match found for barcode data'')
                      (dict_set ''barcode_hash'' (PStr (hash_barcode e b))
                        (dict_set ''barcode_data'' b
                          (dict_set ''plugin'' (PStr (name (plugins ! k))) result)))),
                map (\<lambda>p. EvScan p b) (take (Suc k) plugins))"
proof -
  have loop: "scan_loop plugins b None [] [] =
     (Some (plugins ! k), result, map (\<lambda>p. EvScan p b) (take (Suc k) plugins))"
    using scan_loop_first_match[OF assms(4-7), of None "[]" "[]"] by simp
  show ?thesis
    using assms(3) loop
    unfolding BarcodeScan_post_def b_def[symmetric] plugins_def[symmetric]
    by (simp add: Let_def plugin_name_def)
qed


lemma scan_loop_recorded:
  assumes "\<forall>p\<in>set ps. \<not> is_match (scan p b)" and "resp \<noteq> []"
  shows "scan_loop ps b pl resp tr = (pl, resp, tr @ map (\<lambda>p. EvScan p b) ps)"
  using assms
proof (induction ps arbitrary: tr)
  case Nil
  then show ?case by simp
next
  case (Cons p ps)
  then show ?case by (cases "scan p b") (simp_all add: is_match_def)
qed

lemma has_key_nonempty: "has_key d k \<Longrightarrow> d \<noteq> []"
  by (auto simp: has_key_def)

lemma scan_loop_first_error:
  assumes "k < length ps" and "scan (ps ! k) b = Some err" and "has_key err ''error''"
    and "\<forall>i<k. scan (ps ! i) b = None"
    and "\<forall>p\<in>set ps. \<not> is_match (scan p b)"
  shows "scan_loop ps b None [] tr = (Some (ps ! k), err, tr @ map (\<lambda>p. EvScan p b) ps)"
  using assms
proof (induction ps arbitrary: k tr)
  case Nil
  then show ?case by simp
next
  case (Cons p ps)
  have rest: "\<forall>q\<in>set ps. \<not> is_match (scan q b)" using Cons.prems(5) by simp
  show ?case
  proof (cases k)
    case 0
    with Cons.prems have here: "scan p b = Some err" by simp
    from Cons.prems(3) have "err \<noteq> []" by (rule has_key_nonempty)
    from scan_loop_recorded[OF rest this] here Cons.prems(3) 0 show ?thesis by simp
  next
    case (Suc k')
    with Cons.prems(4) have none: "scan p b = None" by auto
    have k': "k' < length ps" "scan (ps ! k') b = Some err"
      using Cons.prems Suc by auto
    have prev: "\<forall>i<k'. scan (ps ! i) b = None"
    proof (intro allI impI)
      fix i assume "i < k'"
      then have "Suc i < k" using Suc by simp
      with Cons.prems(4) have "scan ((p # ps) ! Suc i) b = None" by blast
      then show "scan (ps ! i) b = None" by simp
    qed
    from Cons.IH[OF k' Cons.prems(3) prev rest] none Suc show ?thesis by simp
  qed
qed

lemma BarcodeScan_post_first_error:
  fixes e :: env and req :: request
  defines "b \<equiv> dict_get (data req) ''barcode''"
    and "plugins \<equiv> with_mixin e ''barcode'' None"
  assumes "truthy b"
    and "k < length plugins" and "scan (plugins ! k) b = Some err"
    and "has_key err ''error''"
    and "\<forall>i<k. scan (plugins ! i) b = None"
    and "\<forall>p\<in>set plugins. \<not> is_match (scan p b)"
  shows "BarcodeScan_post e req =
               (Inr (dict_set ''success'' (PStr ''Match found for barcode data'')
                      (dict_set ''barcode_hash'' (PStr (hash_barcode e b))
                        (dict_set ''barcode_data'' b
                          (dict_set ''plugin'' (PStr (name (plugins ! k))) err)))),
                map (\<lambda>p. EvScan p b) plugins)"
proof -
  have loop: "scan_loop plugins b None [] [] =
     (Some (plugins ! k), err, map (\<lambda>p. EvScan p b) plugins)"
    using scan_loop_first_error[OF assms(4-8), of "[]"] by simp
  show ?thesis
    using assms(3) loop
    unfolding BarcodeScan_post_def b_def[symmetric] plugins_def[symmetric]
    by (simp add: Let_def plugin_name_def)
qed

subsection \<open>The loops of BarcodeAssign.post\<close>

lemma assign_scan_first_answer:
  assumes "k < length ps" and "scan (ps ! k) b = Some result"
    and "\<forall>i<k. scan (ps ! i) b = None"
  shows "assign_scan ps b tr =
           (Some (ValidationError
              (dict_set ''barcode_data'' b
                (dict_set ''plugin'' (PStr (name (ps ! k)))
                  (dict_set ''error'' (PStr ''Barcode matches existing item'') result)))),
            tr @ map (\<lambda>p. EvScan p b) (take (Suc k) ps))"
  using assms
proof (induction ps arbitrary: k tr)
  case Nil
  then show ?case by simp
next
  case (Cons p ps)
  show ?case
  proof (cases k)
    case 0
    with Cons.prems show ?thesis by simp
  next
    case (Suc k')
    with Cons.prems(3) have none: "scan p b = None" by auto
    have k': "k' < length ps" "scan (ps ! k') b = Some result"
      using Cons.prems Suc by auto
    have prev: "\<forall>i<k'. scan (ps ! i) b = None"
    proof (intro allI impI)
      fix i assume "i < k'"
      then have "Suc i < k" using Suc by simp
      with Cons.prems(3) have "scan ((p # ps) ! Suc i) b = None" by blast
      then show "scan (ps ! i) b = None" by simp
    qed
    from Cons.IH[OF k' prev] none Suc show ?thesis by simp
  qed
qed


lemma first_answer_exists:
  assumes "\<exists>p\<in>set ps. scan p b \<noteq> None"
  shows "\<exists>k<length ps. scan (ps ! k) b \<noteq> None \<and> (\<forall>i<k. scan (ps ! i) b = None)"
  using first_satisfying[of ps "\<lambda>p. scan p b \<noteq> None"] assms by simp

lemma is_mutation_scans: "filter is_mutation (map (\<lambda>p. EvScan p b) ps) = []"
  by (induction ps) simp_all

subsection \<open>The loop of BarcodeUnassign.post\<close>

lemma two_in_filter:
  assumes "x \<in> set xs" and "y \<in> set xs" and "x \<noteq> y" and "P x" and "P y"
  shows "1 < length (filter P xs)"
proof -
  have "{x, y} \<subseteq> set (filter P xs)" using assms by simp
  then have "card {x, y} \<le> card (set (filter P xs))" by (intro card_mono) simp_all
  also have "\<dots> \<le> length (filter P xs)" by (rule card_length)
  finally show ?thesis using assms(3) by simp
qed



subsection \<open>The model loops at the model the request names\<close>





subsection \<open>The two lookups of BarcodePOReceive.post\<close>

lemma receive_purchase_order_ok:
  assumes "\<not> truthy (dict_get d ''purchase_order'')
           \<or> (\<exists>po. objects (PurchaseOrder e) (dict_get d ''purchase_order'') = Found po)"
  shows "\<exists>po tr. receive_purchase_order e d = (Inr po, tr) \<and> filter is_scan_receive tr = []"
  using assms
  by (auto simp: receive_purchase_order_def Let_def objects_filter_first_def entity_truthy_def)

lemma receive_location_ok:
  assumes "\<not> truthy (dict_get d ''location'')
           \<or> (\<exists>loc. objects (StockLocation e) (dict_get d ''location'') = Found loc)"
  shows "\<exists>loc tr. receive_location e d = (Inr loc, tr) \<and> filter is_scan_receive tr = []"
  using assms
  by (auto simp: receive_location_def Let_def objects_get_def entity_truthy_def)

lemma receive_purchase_order_trace:
  "filter is_scan_receive (snd (receive_purchase_order e d)) = []"
  by (simp add: receive_purchase_order_def Let_def objects_filter_first_def
        split: lookup.splits)

lemma receive_location_trace:
  "filter is_scan_receive (snd (receive_location e d)) = []"
  by (simp add: receive_location_def Let_def objects_get_def split: lookup.splits)

lemma receive_location_never_invalid:
  "fst (receive_location e d)
     \<noteq> Inl (ValidationError [(''location'', PStr ''Invalid stock location'')])"
  by (simp add: receive_location_def Let_def objects_get_def entity_truthy_def
        split: lookup.splits)

lemma receive_location_no_row:
  assumes "truthy (dict_get d ''location'')"
    and "objects (StockLocation e) (dict_get d ''location'') = NoRow"
  shows "receive_location e d =
           (Inl DoesNotExist, [EvQuery (StockLocation e) (dict_get d ''location'')])"
  using assms by (simp add: receive_location_def Let_def objects_get_def)

lemma BarcodePOReceive_post_location_no_row:
  assumes "truthy (dict_get (data req) ''barcode'')"
    and "\<not> truthy (dict_get (data req) ''purchase_order'')
         \<or> (\<exists>po. objects (PurchaseOrder e) (dict_get (data req) ''purchase_order'') = Found po)"
    and "truthy (dict_get (data req) ''location'')"
    and "objects (StockLocation e) (dict_get (data req) ''location'') = NoRow"
  shows "fst (BarcodePOReceive_post e req) = Inl DoesNotExist"
proof -
  from receive_purchase_order_ok[OF assms(2)] obtain po tr1 where
    po: "receive_purchase_order e (data req) = (Inr po, tr1)" by blast
  from assms(1) po receive_location_no_row[OF assms(3,4)] show ?thesis
    unfolding BarcodePOReceive_post_def by (simp add: Let_def)
qed

section \<open>Properties of the four views\<close>

text \<open>
  Claim C1 (the code departs from it). The chain is the internal plugin, which does not
  know the payload \<^verbatim>\<open>ABC123\<close>, followed by a plugin that answers with an error
  outcome. No plugin matches and one reports an error, yet \<^verbatim>\<open>BarcodeScan.post\<close>
  returns a \<^verbatim>\<open>Response\<close> (not a \<^verbatim>\<open>ValidationError\<close>) that carries the recorded
  \<^verbatim>\<open>error\<close> together with \<^verbatim>\<open>success\<close>: only \<^verbatim>\<open>plugin is None\<close> is tested after
  the loop, where \<^verbatim>\<open>BarcodePOReceive.post\<close> also tests \<^verbatim>\<open>"error" in response\<close>.
  Lemma \<open>BarcodeScan_post_first_error\<close> states the same for every chain without a match.
\<close>

theorem BarcodeScan_error_only_is_success:
  "BarcodeScan_post (site [internal_plugin, faulty_plugin])
     \<lparr>data = [(''barcode'', PStr ''ABC123'')], user = ''guest''\<rparr> =
   (Inr [(''error'', PStr ''Malformed barcode''),
         (''plugin'', PStr ''Faulty''),
         (''barcode_data'', PStr ''ABC123''),
         (''barcode_hash'', PStr ''md5:ABC123''),
         (''success'', PStr ''Match found for barcode data'')],
    [EvScan internal_plugin (PStr ''ABC123''), EvScan faulty_plugin (PStr ''ABC123'')])"
  by (simp add: BarcodeScan_post_def Let_def dict_get_def site_def internal_plugin_def
        faulty_plugin_def has_key_def plugin_name_def)

text \<open>
  Claim C2. For a non-empty payload, if some plugin of the generic chain answers
  \<^verbatim>\<open>scan\<close> with a successful match, \<^verbatim>\<open>BarcodeScan.post\<close> returns the answer of the
  earliest such plugin \<open>plugins ! k\<close> (with \<^verbatim>\<open>plugin\<close>, \<^verbatim>\<open>barcode_data\<close>,
  \<^verbatim>\<open>barcode_hash\<close> and \<^verbatim>\<open>success\<close> set on it), and the plugins it called are exactly
  the first \<open>k + 1\<close> of the chain: no plugin after the winner is called.
\<close>

theorem BarcodeScan_first_match_wins:
  fixes e :: env and req :: request
  defines "b \<equiv> dict_get (data req) ''barcode''"
    and "plugins \<equiv> with_mixin e ''barcode'' None"
  assumes "truthy b"
    and "\<exists>p\<in>set plugins. is_match (scan p b)"
  shows "\<exists>k result. k < length plugins \<and> scan (plugins ! k) b = Some result
           \<and> \<not> has_key result ''error''
           \<and> (\<forall>i<k. \<not> is_match (scan (plugins ! i) b))
           \<and> BarcodeScan_post e req =
               (Inr (dict_set ''success'' (PStr ''Match found for barcode data'')
                      (dict_set ''barcode_hash'' (PStr (hash_barcode e b))
                        (dict_set ''barcode_data'' b
                          (dict_set ''plugin'' (PStr (name (plugins ! k))) result)))),
                map (\<lambda>p. EvScan p b) (take (Suc k) plugins))"
proof -
  from first_match_exists[OF assms(4)] obtain k where
    k: "k < length plugins" "is_match (scan (plugins ! k) b)"
       "\<forall>i<k. \<not> is_match (scan (plugins ! i) b)" by blast
  from k(2) obtain result where r: "scan (plugins ! k) b = Some result" "\<not> has_key result ''error''"
    by (auto simp: is_match_def split: option.splits)
  from BarcodeScan_post_first_match[OF assms(3)[unfolded b_def] k(1)[unfolded plugins_def b_def]
         r(1)[unfolded plugins_def b_def] r(2) k(3)[unfolded plugins_def b_def]]
  have "BarcodeScan_post e req =
               (Inr (dict_set ''success'' (PStr ''Match found for barcode data'')
                      (dict_set ''barcode_hash'' (PStr (hash_barcode e b))
                        (dict_set ''barcode_data'' b
                          (dict_set ''plugin'' (PStr (name (plugins ! k))) result)))),
                map (\<lambda>p. EvScan p b) (take (Suc k) plugins))"
    unfolding b_def plugins_def .
  with k r show ?thesis by blast
qed


theorem BarcodeScan_first_match_wins_witness:
  "truthy (dict_get (data \<lparr>data = [(''barcode'', PStr ''STOCK7'')], user = ''guest''\<rparr>) ''barcode'')
   \<and> (\<exists>p\<in>set (with_mixin (site [internal_plugin, catch_all_plugin]) ''barcode'' None).
         is_match (scan p (PStr ''STOCK7'')))
   \<and> BarcodeScan_post (site [internal_plugin, catch_all_plugin])
         \<lparr>data = [(''barcode'', PStr ''STOCK7'')], user = ''guest''\<rparr> =
       (Inr [(''stockitem'', PDict [(''pk'', PInt 7)]),
             (''plugin'', PStr ''InvenTreeBarcode''),
             (''barcode_data'', PStr ''STOCK7''),
             (''barcode_hash'', PStr ''md5:STOCK7''),
             (''success'', PStr ''Match found for barcode data'')],
        [EvScan internal_plugin (PStr ''STOCK7'')])"
proof -
  let ?e = "site [internal_plugin, catch_all_plugin]"
  let ?req = "\<lparr>data = [(''barcode'', PStr ''STOCK7'')], user = ''guest''\<rparr>"
  have b: "dict_get (data ?req) ''barcode'' = PStr ''STOCK7''"
    by (simp add: dict_get_def)
  have h1: "truthy (dict_get (data ?req) ''barcode'')"
    by (simp add: dict_get_def)
  have h2: "\<exists>p\<in>set (with_mixin ?e ''barcode'' None).
              is_match (scan p (dict_get (data ?req) ''barcode''))"
    by (simp add: dict_get_def site_def internal_plugin_def is_match_def has_key_def)
  from BarcodeScan_first_match_wins[OF h1 h2] obtain k result where
    k: "k < length (with_mixin ?e ''barcode'' None)"
       "scan (with_mixin ?e ''barcode'' None ! k) (PStr ''STOCK7'') = Some result"
       "\<forall>i<k. \<not> is_match (scan (with_mixin ?e ''barcode'' None ! i) (PStr ''STOCK7''))"
    and post: "BarcodeScan_post ?e ?req =
       (Inr (dict_set ''success'' (PStr ''Match found for barcode data'')
              (dict_set ''barcode_hash'' (PStr (hash_barcode ?e (PStr ''STOCK7'')))
                (dict_set ''barcode_data'' (PStr ''STOCK7'')
                  (dict_set ''plugin'' (PStr (name (with_mixin ?e ''barcode'' None ! k))) result)))),
        map (\<lambda>p. EvScan p (PStr ''STOCK7'')) (take (Suc k) (with_mixin ?e ''barcode'' None)))"
    unfolding b by blast
  have m0: "is_match (scan (with_mixin ?e ''barcode'' None ! 0) (PStr ''STOCK7''))"
    by (simp add: site_def internal_plugin_def is_match_def has_key_def)
  have "k = 0"
  proof (rule ccontr)
    assume "k \<noteq> 0"
    then have "0 < k" by simp
    with k(3) m0 show False by blast
  qed
  with k(2) post have "BarcodeScan_post ?e ?req =
       (Inr [(''stockitem'', PDict [(''pk'', PInt 7)]),
             (''plugin'', PStr ''InvenTreeBarcode''),
             (''barcode_data'', PStr ''STOCK7''),
             (''barcode_hash'', PStr ''md5:STOCK7''),
             (''success'', PStr ''Match found for barcode data'')],
        [EvScan internal_plugin (PStr ''STOCK7'')])"
    by (auto simp: site_def internal_plugin_def)
  with h1 h2 show ?thesis by (simp add: dict_get_def)
qed



text \<open>
  Claim C4. For a non-empty payload that some builtin plugin of the generic chain
  answers (its \<^verbatim>\<open>scan\<close> does not return \<^verbatim>\<open>None\<close>), \<^verbatim>\<open>BarcodeAssign.post\<close> raises a
  \<^verbatim>\<open>ValidationError\<close> whose \<^verbatim>\<open>error\<close> is \<^verbatim>\<open>Barcode matches existing item\<close> and
  whose \<^verbatim>\<open>plugin\<close> is the name of the first builtin plugin that answered, whatever
  else the request holds. The run consists of the \<^verbatim>\<open>scan\<close> calls up to that plugin:
  no row is queried and no barcode is assigned. The concrete run below carries the
  key of an existing stock item.
\<close>

theorem BarcodeAssign_matches_existing_item:
  fixes e :: env and req :: request
  defines "b \<equiv> dict_get (data req) ''barcode''"
    and "plugins \<equiv> with_mixin e ''barcode'' (Some True)"
  assumes "truthy b"
    and "\<exists>p\<in>set plugins. scan p b \<noteq> None"
  shows "\<exists>k result d tr. k < length plugins \<and> scan (plugins ! k) b = Some result
           \<and> (\<forall>i<k. scan (plugins ! i) b = None)
           \<and> BarcodeAssign_post e req = (Inl (ValidationError d), tr)
           \<and> d = dict_set ''barcode_data'' b
                   (dict_set ''plugin'' (PStr (name (plugins ! k)))
                     (dict_set ''error'' (PStr ''Barcode matches existing item'') result))
           \<and> dict_get d ''error'' = PStr ''Barcode matches existing item''
           \<and> dict_get d ''plugin'' = PStr (name (plugins ! k))
           \<and> tr = map (\<lambda>p. EvScan p b) (take (Suc k) plugins)
           \<and> filter is_mutation tr = []"
proof -
  from first_answer_exists[OF assms(4)] obtain k where
    k: "k < length plugins" "scan (plugins ! k) b \<noteq> None"
       "\<forall>i<k. scan (plugins ! i) b = None" by blast
  from k(2) obtain result where r: "scan (plugins ! k) b = Some result" by auto
  let ?d = "dict_set ''barcode_data'' b
                   (dict_set ''plugin'' (PStr (name (plugins ! k)))
                     (dict_set ''error'' (PStr ''Barcode matches existing item'') result))"
  let ?tr = "map (\<lambda>p. EvScan p b) (take (Suc k) plugins)"
  have loop: "assign_scan plugins b [] = (Some (ValidationError ?d), ?tr)"
    using assign_scan_first_answer[OF k(1) r k(3), of "[]"] by simp
  have post: "BarcodeAssign_post e req = (Inl (ValidationError ?d), ?tr)"
    using assms(3) loop
    unfolding BarcodeAssign_post_def b_def[symmetric] plugins_def[symmetric]
    by (simp add: Let_def)
  have g1: "dict_get ?d ''error'' = PStr ''Barcode matches existing item''"
    by (simp add: dict_get_dict_set)
  have g2: "dict_get ?d ''plugin'' = PStr (name (plugins ! k))"
    by (simp add: dict_get_dict_set)
  have g3: "filter is_mutation ?tr = []" by (rule is_mutation_scans)
  from k(1) r k(3) post g1 g2 g3 show ?thesis by blast
qed

theorem BarcodeAssign_matches_existing_item_witness:
  "truthy (PStr ''STOCK7'')
   \<and> (\<exists>p\<in>set (with_mixin (site [internal_plugin, supplier_plugin]) ''barcode'' (Some True)).
         scan p (PStr ''STOCK7'') \<noteq> None)
   \<and> objects stockitem_model (PInt 42) = Found (Entity (PInt 42))
   \<and> BarcodeAssign_post (site [internal_plugin, supplier_plugin])
        \<lparr>data = [(''barcode'', PStr ''STOCK7''), (''stockitem'', PInt 42)], user = ''admin''\<rparr> =
      (Inl (ValidationError
         [(''stockitem'', PDict [(''pk'', PInt 7)]),
          (''error'', PStr ''Barcode matches existing item''),
          (''plugin'', PStr ''InvenTreeBarcode''),
          (''barcode_data'', PStr ''STOCK7'')]),
       [EvScan internal_plugin (PStr ''STOCK7'')])"
proof -
  let ?e = "site [internal_plugin, supplier_plugin]"
  let ?req = "\<lparr>data = [(''barcode'', PStr ''STOCK7''), (''stockitem'', PInt 42)],
                user = ''admin''\<rparr>"
  let ?ps = "with_mixin ?e ''barcode'' (Some True)"
  have ps: "?ps = [internal_plugin]"
    by (simp add: site_def internal_plugin_def supplier_plugin_def)
  have h1: "truthy (dict_get (data ?req) ''barcode'')" by (simp add: dict_get_def)
  have h2: "\<exists>p\<in>set ?ps. scan p (dict_get (data ?req) ''barcode'') \<noteq> None"
    unfolding ps by (simp add: dict_get_def internal_plugin_def)
  from BarcodeAssign_matches_existing_item[OF h1 h2] obtain k result where
    k: "k < length ?ps"
       "scan (?ps ! k) (dict_get (data ?req) ''barcode'') = Some result"
    and post: "BarcodeAssign_post ?e ?req =
       (Inl (ValidationError
          (dict_set ''barcode_data'' (dict_get (data ?req) ''barcode'')
                   (dict_set ''plugin'' (PStr (name (?ps ! k)))
                     (dict_set ''error'' (PStr ''Barcode matches existing item'') result)))),
        map (\<lambda>p. EvScan p (dict_get (data ?req) ''barcode'')) (take (Suc k) ?ps))"
    by blast
  from k(1) have "k = 0" unfolding ps by simp
  with k(2) post have "BarcodeAssign_post ?e ?req =
      (Inl (ValidationError
         [(''stockitem'', PDict [(''pk'', PInt 7)]),
          (''error'', PStr ''Barcode matches existing item''),
          (''plugin'', PStr ''InvenTreeBarcode''),
          (''barcode_data'', PStr ''STOCK7'')]),
       [EvScan internal_plugin (PStr ''STOCK7'')])"
    unfolding ps by (auto simp: dict_get_def internal_plugin_def)
  moreover have "objects stockitem_model (PInt 42) = Found (Entity (PInt 42))"
    by (simp add: stockitem_model_def one_row_def)
  ultimately show ?thesis using h1 h2 by (simp add: dict_get_def)
qed

text \<open>
  Claim C5 as stated fails on a request whose purchase order does not exist: the
  internal plugin knows the payload \<^verbatim>\<open>STOCK7\<close>, but the purchase order 99 is looked up
  first, and the view raises \<^verbatim>\<open>Invalid purchase order\<close>.
\<close>

theorem BarcodePOReceive_invalid_order_first:
  "truthy (PStr ''STOCK7'')
   \<and> find (\<lambda>p. name p = ''InvenTreeBarcode'')
        (with_mixin (site [internal_plugin, supplier_plugin]) ''barcode'' None) = Some internal_plugin
   \<and> scan internal_plugin (PStr ''STOCK7'') = Some [(''stockitem'', PDict [(''pk'', PInt 7)])]
   \<and> BarcodePOReceive_post (site [internal_plugin, supplier_plugin])
        \<lparr>data = [(''barcode'', PStr ''STOCK7''), (''purchase_order'', PInt 99)],
          user = ''admin''\<rparr> =
      (Inl (ValidationError [(''purchase_order'', PStr ''Invalid purchase order'')]),
       [EvQuery purchase_order_model (PInt 99)])
   \<and> fst (BarcodePOReceive_post (site [internal_plugin, supplier_plugin])
        \<lparr>data = [(''barcode'', PStr ''STOCK7''), (''purchase_order'', PInt 99)],
          user = ''admin''\<rparr>)
      \<noteq> Inl (ValidationError [(''error'', PStr ''Item has already been received'')])"
  by (simp add: BarcodePOReceive_post_def receive_purchase_order_def Let_def site_def
        internal_plugin_def supplier_plugin_def purchase_order_model_def dict_get_def
        objects_filter_first_def one_row_def)

text \<open>
  Claim C5, as the code has it. Let the payload be non-empty and let the first plugin
  named \<^verbatim>\<open>InvenTreeBarcode\<close> of the generic chain answer it with a non-empty dictionary
  (\<^verbatim>\<open>if internal_barcode_plugin.scan(barcode_data)\<close> tests truthiness). Then
  \<^verbatim>\<open>BarcodePOReceive.post\<close> raises an exception and calls no plugin's
  \<^verbatim>\<open>scan_receive_item\<close>. When moreover each of \<^verbatim>\<open>purchase_order\<close> and \<^verbatim>\<open>location\<close> is
  absent (or falsy) or the key of an existing row, the exception is the
  \<^verbatim>\<open>ValidationError\<close> \<^verbatim>\<open>Item has already been received\<close>.
\<close>

theorem BarcodePOReceive_already_received:
  fixes e :: env and req :: request
  defines "b \<equiv> dict_get (data req) ''barcode''"
    and "po_key \<equiv> dict_get (data req) ''purchase_order''"
    and "loc_key \<equiv> dict_get (data req) ''location''"
  assumes "truthy b"
    and "find (\<lambda>p. name p = ''InvenTreeBarcode'') (with_mixin e ''barcode'' None) = Some p"
    and "scan p b = Some d" and "d \<noteq> []"
  shows "(\<exists>x tr. BarcodePOReceive_post e req = (Inl x, tr) \<and> filter is_scan_receive tr = [])
       \<and> ((\<not> truthy po_key \<or> (\<exists>po. objects (PurchaseOrder e) po_key = Found po))
            \<and> (\<not> truthy loc_key \<or> (\<exists>loc. objects (StockLocation e) loc_key = Found loc)) \<longrightarrow>
          fst (BarcodePOReceive_post e req) =
            Inl (ValidationError [(''error'', PStr ''Item has already been received'')]))"
proof (intro conjI impI)
  obtain r1 tr1 where po: "receive_purchase_order e (data req) = (r1, tr1)"
    by (cases "receive_purchase_order e (data req)") auto
  obtain r2 tr2 where loc: "receive_location e (data req) = (r2, tr2)"
    by (cases "receive_location e (data req)") auto
  have t1: "filter is_scan_receive tr1 = []"
    using receive_purchase_order_trace[of e "data req"] po by simp
  have t2: "filter is_scan_receive tr2 = []"
    using receive_location_trace[of e "data req"] loc by simp
  show "\<exists>x tr. BarcodePOReceive_post e req = (Inl x, tr) \<and> filter is_scan_receive tr = []"
    using assms(4-7) po loc t1 t2
    unfolding BarcodePOReceive_post_def b_def[symmetric]
    by (cases r1; cases r2) (simp_all add: Let_def scan_truthy_def)
next
  assume ok: "(\<not> truthy po_key \<or> (\<exists>po. objects (PurchaseOrder e) po_key = Found po))
            \<and> (\<not> truthy loc_key \<or> (\<exists>loc. objects (StockLocation e) loc_key = Found loc))"
  from ok receive_purchase_order_ok[of "data req" e] obtain po tr1 where
    po: "receive_purchase_order e (data req) = (Inr po, tr1)"
    unfolding po_key_def by blast
  from ok receive_location_ok[of "data req" e] obtain loc tr2 where
    loc: "receive_location e (data req) = (Inr loc, tr2)"
    unfolding loc_key_def by blast
  show "fst (BarcodePOReceive_post e req) =
            Inl (ValidationError [(''error'', PStr ''Item has already been received'')])"
    using assms(4-7) po loc
    unfolding BarcodePOReceive_post_def b_def[symmetric]
    by (simp add: Let_def scan_truthy_def)
qed

theorem BarcodePOReceive_already_received_witness:
  "truthy (PStr ''STOCK7'')
   \<and> find (\<lambda>p. name p = ''InvenTreeBarcode'')
        (with_mixin (site [internal_plugin, supplier_plugin]) ''barcode'' None) = Some internal_plugin
   \<and> scan internal_plugin (PStr ''STOCK7'') = Some [(''stockitem'', PDict [(''pk'', PInt 7)])]
   \<and> objects (PurchaseOrder (site [internal_plugin, supplier_plugin])) (PInt 5)
        = Found (Entity (PInt 5))
   \<and> fst (BarcodePOReceive_post (site [internal_plugin, supplier_plugin])
        \<lparr>data = [(''barcode'', PStr ''STOCK7''), (''purchase_order'', PInt 5)],
          user = ''admin''\<rparr>) =
      Inl (ValidationError [(''error'', PStr ''Item has already been received'')])
   \<and> snd (BarcodePOReceive_post (site [internal_plugin, supplier_plugin])
        \<lparr>data = [(''barcode'', PStr ''STOCK7''), (''purchase_order'', PInt 5)],
          user = ''admin''\<rparr>) =
      [EvQuery purchase_order_model (PInt 5), EvScan internal_plugin (PStr ''STOCK7'')]"
proof -
  let ?e = "site [internal_plugin, supplier_plugin]"
  let ?req = "\<lparr>data = [(''barcode'', PStr ''STOCK7''), (''purchase_order'', PInt 5)],
                user = ''admin''\<rparr>"
  have h1: "truthy (dict_get (data ?req) ''barcode'')" by (simp add: dict_get_def)
  have h2: "find (\<lambda>p. name p = ''InvenTreeBarcode'') (with_mixin ?e ''barcode'' None)
              = Some internal_plugin"
    by (simp add: site_def internal_plugin_def)
  have h3: "scan internal_plugin (dict_get (data ?req) ''barcode'')
              = Some [(''stockitem'', PDict [(''pk'', PInt 7)])]"
    by (simp add: dict_get_def internal_plugin_def)
  have h4: "[(''stockitem'', PDict [(''pk'', PInt 7)])] \<noteq> []" by simp
  have po: "objects (PurchaseOrder ?e) (dict_get (data ?req) ''purchase_order'')
              = Found (Entity (PInt 5))"
    by (simp add: dict_get_def site_def purchase_order_model_def one_row_def)
  have loc: "\<not> truthy (dict_get (data ?req) ''location'')"
    by (simp add: dict_get_def)
  from BarcodePOReceive_already_received[OF h1 h2 h3 h4] po loc
  have r: "fst (BarcodePOReceive_post ?e ?req) =
      Inl (ValidationError [(''error'', PStr ''Item has already been received'')])"
    by blast
  have tr: "snd (BarcodePOReceive_post ?e ?req) =
      [EvQuery purchase_order_model (PInt 5), EvScan internal_plugin (PStr ''STOCK7'')]"
    by (simp add: BarcodePOReceive_post_def receive_purchase_order_def receive_location_def
          Let_def site_def internal_plugin_def supplier_plugin_def purchase_order_model_def
          dict_get_def objects_filter_first_def one_row_def entity_truthy_def scan_truthy_def)
  from h1 h2 h3 po r tr show ?thesis by (simp add: dict_get_def)
qed




text \<open>
  Claim C7. When two different supported labels are keys of the request,
  \<^verbatim>\<open>BarcodeUnassign.post\<close> raises the \<^verbatim>\<open>ValidationError\<close>
  \<^verbatim>\<open>Multiple conflicting fields\<close>, and when no supported label is a key it raises
  \<^verbatim>\<open>Missing data: Provide one of\<close> followed by the supported labels. In both cases
  the run is empty: no row was queried, no permission checked and no barcode
  unassigned.
\<close>

theorem BarcodeUnassign_label_count:
  fixes e :: env and req :: request
  defines "labels \<equiv> map barcode_model_type (get_supported_barcode_models e)"
  shows "(\<forall>l1 l2. l1 \<in> set labels \<and> l2 \<in> set labels \<and> l1 \<noteq> l2
                   \<and> has_key (data req) l1 \<and> has_key (data req) l2 \<longrightarrow>
            BarcodeUnassign_post e req =
              (Inl (ValidationError
                 [(''error'', PStr (''Multiple conflicting fields: '' @ [CHR 0x27]
                                     @ join '', '' labels @ [CHR 0x27]))]), []))
         \<and> ((\<forall>l\<in>set labels. \<not> has_key (data req) l) \<longrightarrow>
            BarcodeUnassign_post e req =
              (Inl (ValidationError
                 [(''error'', PStr (''Missing data: Provide one of '' @ [CHR 0x27]
                                     @ join '', '' labels @ [CHR 0x27]))]), []))"
proof (intro conjI allI impI)
  fix l1 l2
  assume a: "l1 \<in> set labels \<and> l2 \<in> set labels \<and> l1 \<noteq> l2
               \<and> has_key (data req) l1 \<and> has_key (data req) l2"
  then have many: "1 < length (filter (has_key (data req)) labels)"
    by (intro two_in_filter[of l1 _ l2]) simp_all
  then have ne: "filter (has_key (data req)) labels \<noteq> []" by auto
  from many ne show "BarcodeUnassign_post e req =
              (Inl (ValidationError
                 [(''error'', PStr (''Multiple conflicting fields: '' @ [CHR 0x27]
                                     @ join '', '' labels @ [CHR 0x27]))]), [])"
    unfolding BarcodeUnassign_post_def labels_def by (simp add: Let_def)
next
  assume "\<forall>l\<in>set labels. \<not> has_key (data req) l"
  then have "filter (has_key (data req)) labels = []"
    by (simp add: filter_empty_conv)
  then show "BarcodeUnassign_post e req =
              (Inl (ValidationError
                 [(''error'', PStr (''Missing data: Provide one of '' @ [CHR 0x27]
                                     @ join '', '' labels @ [CHR 0x27]))]), [])"
    unfolding BarcodeUnassign_post_def labels_def by (simp add: Let_def)
qed

theorem BarcodeUnassign_label_count_witness:
  "''part'' \<in> set (map barcode_model_type (get_supported_barcode_models (site [internal_plugin])))
   \<and> ''stockitem'' \<in> set (map barcode_model_type (get_supported_barcode_models (site [internal_plugin])))
   \<and> has_key [(''stockitem'', PInt 42), (''part'', PInt 1)] ''part''
   \<and> has_key [(''stockitem'', PInt 42), (''part'', PInt 1)] ''stockitem''
   \<and> BarcodeUnassign_post (site [internal_plugin])
        \<lparr>data = [(''stockitem'', PInt 42), (''part'', PInt 1)], user = ''admin''\<rparr> =
      (Inl (ValidationError
         [(''error'', PStr (''Multiple conflicting fields: 'part, stockitem'' @ [CHR 0x27]))]), [])
   \<and> list_all (\<lambda>l. \<not> has_key [] l)
        (map barcode_model_type (get_supported_barcode_models (site [internal_plugin])))
   \<and> BarcodeUnassign_post (site [internal_plugin]) \<lparr>data = [], user = ''admin''\<rparr> =
      (Inl (ValidationError
         [(''error'', PStr (''Missing data: Provide one of 'part, stockitem'' @ [CHR 0x27]))]), [])"
proof -
  let ?e = "site [internal_plugin]"
  let ?two = "\<lparr>data = [(''stockitem'', PInt 42), (''part'', PInt 1)], user = ''admin''\<rparr>"
  let ?none = "\<lparr>data = [], user = ''admin''\<rparr>"
  let ?labels = "map barcode_model_type (get_supported_barcode_models ?e)"
  have labels: "?labels = [''part'', ''stockitem'']"
    by (simp add: site_def part_model_def stockitem_model_def)
  have h1: "''part'' \<in> set ?labels \<and> ''stockitem'' \<in> set ?labels \<and> ''part'' \<noteq> ''stockitem''
              \<and> has_key (data ?two) ''part'' \<and> has_key (data ?two) ''stockitem''"
    unfolding labels by (simp add: has_key_def)
  have h2: "\<forall>l\<in>set ?labels. \<not> has_key (data ?none) l"
    by (simp add: has_key_def)
  from BarcodeUnassign_label_count[of ?e ?two] h1
  have r1: "BarcodeUnassign_post ?e ?two =
      (Inl (ValidationError
         [(''error'', PStr (''Multiple conflicting fields: '' @ [CHR 0x27]
                             @ join '', '' ?labels @ [CHR 0x27]))]), [])"
    by blast
  from BarcodeUnassign_label_count[of ?e ?none] h2
  have r2: "BarcodeUnassign_post ?e ?none =
      (Inl (ValidationError
         [(''error'', PStr (''Missing data: Provide one of '' @ [CHR 0x27]
                             @ join '', '' ?labels @ [CHR 0x27]))]), [])"
    by blast
  from h1 h2 r1 r2 show ?thesis
    unfolding labels by (simp add: list_all_iff)
qed

text \<open>
  Claim C8 (the code departs from it). The request names the stock location 99, which
  does not exist. \<^verbatim>\<open>StockLocation.objects.get(pk=location_pk)\<close> raises
  \<^verbatim>\<open>StockLocation.DoesNotExist\<close>, which nothing catches, so the view ends with that
  exception and not with the \<^verbatim>\<open>ValidationError\<close> \<^verbatim>\<open>Invalid stock location\<close> of the
  next line; by \<open>receive_location_never_invalid\<close> that line is never reached, and
  \<open>BarcodePOReceive_post_location_no_row\<close> gives the same outcome for every such request. The
  purchase order, looked up with \<^verbatim>\<open>filter(...).first()\<close>, does get its
  \<^verbatim>\<open>ValidationError\<close>.
\<close>

theorem BarcodePOReceive_missing_location_uncaught:
  "BarcodePOReceive_post (site [internal_plugin, supplier_plugin])
     \<lparr>data = [(''barcode'', PStr ''DK1''), (''location'', PInt 99)], user = ''admin''\<rparr> =
   (Inl DoesNotExist, [EvQuery stock_location_model (PInt 99)])"
  by (simp add: BarcodePOReceive_post_def receive_purchase_order_def receive_location_def
        Let_def site_def stock_location_model_def dict_get_def objects_get_def one_row_def)







end
